theory Spec2Isabelle
  imports Complex_Main
begin

section \<open>The qdrant vector store adapter\<close>

text \<open>
  A shallow embedding of package \<open>vectorstores/qdrant\<close> (files \<open>qdrant.go\<close>,
  \<open>restapi.go\<close> and the options file that declares \<open>contentKey\<close> and \<open>metadataKey\<close>)
  together with \<open>NilEmbedder\<close> of package \<open>vectorstores\<close>.

  Go values of static type \<open>any\<close> are a tagged variant; a \<open>map[string]any\<close> is an
  association list read with \<open>map_of\<close>; \<open>float32\<close> numbers are rationals (no rounding, no
  NaN); a runtime panic is a result of its own, distinct from every Go \<open>error\<close>.
\<close>

subsection \<open>Values, errors and the data model\<close>

datatype any = ANil | ABool bool | ANum rat | AStr string | AList "any list"
  | AMap "(string \<times> any) list"

type_synonym gomap = "(string \<times> any) list"

text \<open>Indexing a Go map: a missing key reads as the zero value \<open>nil\<close>.\<close>

definition index_map :: "gomap \<Rightarrow> string \<Rightarrow> any" where
  "index_map m k = (case map_of m k of None \<Rightarrow> ANil | Some v \<Rightarrow> v)"

text \<open>
  A map-typed field may hold the nil map (\<open>None\<close>). Stored into a payload of type
  \<open>any\<close> and sent as JSON, the nil map is \<open>null\<close>, which decodes to the nil interface.
\<close>

definition to_any :: "gomap option \<Rightarrow> any" where
  "to_any m = (case m of None \<Rightarrow> ANil | Some al \<Rightarrow> AMap al)"

text \<open>The map literal \<open>map[string]any{k1: v1, k2: v2}\<close>: a later equal key overwrites.\<close>

definition map_literal2 :: "string \<Rightarrow> any \<Rightarrow> string \<Rightarrow> any \<Rightarrow> gomap" where
  "map_literal2 k1 v1 k2 v2 = (if k1 = k2 then [(k2, v2)] else [(k1, v1), (k2, v2)])"

text \<open>The assignment \<open>m[k] = v\<close>: the key is bound once, to the new value.\<close>

definition map_assign :: "gomap \<Rightarrow> string \<Rightarrow> any \<Rightarrow> gomap" where
  "map_assign m k v = (if k \<in> fst ` set m
     then map (\<lambda>kv. if fst kv = k then (k, v) else kv) m else m @ [(k, v)])"

datatype error =
    ErrMissingTextKey
  | ErrEmbedderWrongNumberVectors
  | ErrEmbedderIsNil
  | ErrEmptyResponse
  | ErrInvalidScoreThreshold
  | ErrInvalidOptions string
  | APIError string string
  | OtherError string

datatype fault = Error error | Panic string

record Document =
  PageContent :: string
  Metadata :: "gomap option"
  Score :: rat

record point =
  Vector :: "rat list"
  Payload :: gomap
  ID :: string

record scoredPoint =
  sp_ID :: string
  sp_Version :: int
  sp_Score :: rat
  sp_Payload :: gomap
  sp_Vector :: "rat list"

record queriesResponse =
  qr_Time :: rat
  qr_Status :: string
  qr_Result :: "scoredPoint list"

record queryPayload =
  WithVector :: bool
  WithPayload :: bool
  qp_Vector :: "rat list"
  Limit :: int
  Filter :: any
  ScoreThreshold :: rat

record scrollResult =
  Points :: "point list"
  NextPageOffset :: "string option"

record scrollResponse =
  sr_Time :: rat
  sr_Status :: string
  sr_Result :: "scrollResult option"

record ScrollPointsRequest =
  Offset :: string
  sc_Limit :: int
  sc_Filter :: any
  sc_WithPayload :: bool
  sc_WithVector :: bool

subsection \<open>Embedders\<close>

text \<open>
  The interface \<open>embeddings.Embedder\<close> has two methods. \<open>NilEmbedder\<close> is the
  implementation of package \<open>vectorstores\<close>; any other one is given by its two methods.
  A nil interface value is \<open>None\<close>.
\<close>

datatype Embedder =
    NilEmbedder
  | CustomEmbedder "string list \<Rightarrow> error + rat list list" "string \<Rightarrow> error + rat list"

definition NewNilVector :: "rat list" where
  "NewNilVector = replicate 1536 (1 / 10000000)"

fun EmbedDocuments :: "Embedder \<Rightarrow> string list \<Rightarrow> error + rat list list" where
  "EmbedDocuments NilEmbedder texts = Inr (map (\<lambda>_. NewNilVector) texts)"
| "EmbedDocuments (CustomEmbedder docs_fn query_fn) texts = docs_fn texts"

fun EmbedQuery :: "Embedder \<Rightarrow> string \<Rightarrow> error + rat list" where
  "EmbedQuery NilEmbedder text = Inr NewNilVector"
| "EmbedQuery (CustomEmbedder docs_fn query_fn) text = query_fn text"

fun isNilEmbedder :: "Embedder option \<Rightarrow> bool" where
  "isNilEmbedder (Some NilEmbedder) = True"
| "isNilEmbedder _ = False"

subsection \<open>The store and the outside world\<close>

record Store =
  embedder :: "Embedder option"
  useCloud :: bool
  apiKey :: string
  baseURL :: string
  collectionName :: string
  contentKey :: string
  metadataKey :: string
  indexKeys :: "string list"
  collectionConfig :: gomap

definition zero_Store :: Store where
  "zero_Store = \<lparr>embedder = None, useCloud = False, apiKey = [], baseURL = [],
     collectionName = [], contentKey = [], metadataKey = [], indexKeys = [],
     collectionConfig = []\<rparr>"

datatype payload =
    UpsertPayload "point list"
  | DeletePayload any
  | CollectionPayload gomap
  | IndexPayload string string
  | QueryPayload queryPayload
  | ScrollPayload ScrollPointsRequest

record request =
  req_method :: string
  req_url :: string
  req_apiKey :: string
  req_payload :: payload

text \<open>A response body is read once: either its text, or the error of the failing read.\<close>

datatype ReadCloser = Body string | BrokenBody string

text \<open>
  Everything the package reaches outside itself: the environment variables, the UUID
  generator (the \<open>n\<close>-th call of \<open>uuid.New\<close> returns \<open>uuid_gen n\<close>), the HTTP
  client (its answer may depend on the requests sent before), the JSON decoder on the two
  response types, and the list of requests sent so far, oldest first.
\<close>

record world =
  getenv :: "string \<Rightarrow> string"
  uuid_gen :: "nat \<Rightarrow> string"
  uuid_count :: nat
  http_do :: "request list \<Rightarrow> request \<Rightarrow> error + (ReadCloser \<times> int)"
  decode_queries :: "ReadCloser \<Rightarrow> error + queriesResponse"
  decode_scroll :: "ReadCloser \<Rightarrow> error + scrollResponse"
  sent :: "request list"

definition uuid_New :: "world \<Rightarrow> string \<times> world" where
  "uuid_New w = (uuid_gen w (uuid_count w), w\<lparr>uuid_count := Suc (uuid_count w)\<rparr>)"

subsection \<open>restapi.go\<close>

fun newAPIError :: "string \<Rightarrow> ReadCloser \<Rightarrow> error" where
  "newAPIError task (BrokenBody err) = APIError ''reading body of error message'' err"
| "newAPIError task (Body buf) = APIError task buf"

text \<open>
  \<open>doRequest\<close> hands the request to the HTTP client and returns the body and the
  status, or the error. A payload that does not marshal and a URL that does not parse are
  errors of the same kind, reported by \<open>http_do\<close>.
\<close>

definition doRequest ::
  "world \<Rightarrow> payload \<Rightarrow> string \<Rightarrow> string \<Rightarrow> string \<Rightarrow> (error + (ReadCloser \<times> int)) \<times> world" where
  "doRequest w pl url key method =
     (let req = \<lparr>req_method = method, req_url = url, req_apiKey = key, req_payload = pl\<rparr>
      in (http_do w (sent w) req, w\<lparr>sent := sent w @ [req]\<rparr>))"

definition hasPrefix :: "string \<Rightarrow> string \<Rightarrow> bool" where
  "hasPrefix s p = (take (length p) s = p)"

definition getEndpoint :: "string \<Rightarrow> string \<Rightarrow> string \<Rightarrow> string" where
  "getEndpoint base collection path =
     (let path' = (if path \<noteq> [] \<and> \<not> hasPrefix path ''/'' then ''/'' @ path else path)
      in base @ ''/collections/'' @ collection @ path')"

text \<open>
  The body of the loop of \<open>restUpsert\<close> at index \<open>i\<close>, given the UUID drawn for this
  iteration: \<open>metadatas[i]\<close> and \<open>texts[i]\<close> panic out of range, and the type
  assertion \<open>.(string)\<close> on the value under \<open>__point_id\<close> panics on a non-string.
\<close>

definition upsertPoint ::
  "Store \<Rightarrow> string list \<Rightarrow> rat list list \<Rightarrow> gomap option list \<Rightarrow> nat \<Rightarrow> string \<Rightarrow> fault + point" where
  "upsertPoint s texts vectors metadatas i uuid =
     (if length metadatas \<le> i then Inl (Panic ''index out of range'')
      else
        (case (case metadatas ! i of
                 None \<Rightarrow> Inr uuid
               | Some m \<Rightarrow>
                   (case index_map m ''__point_id'' of
                      ANil \<Rightarrow> Inr uuid
                    | AStr pid \<Rightarrow> Inr pid
                    | _ \<Rightarrow> Inl (Panic ''interface conversion: interface {} is not string''))) of
           Inl f \<Rightarrow> Inl f
         | Inr pid \<Rightarrow>
             if length texts \<le> i then Inl (Panic ''index out of range'')
             else Inr \<lparr>Vector = vectors ! i,
                       Payload = map_literal2 (contentKey s) (AStr (texts ! i))
                                   (metadataKey s) (to_any (metadatas ! i)),
                       ID = pid\<rparr>))"

text \<open>The loop \<open>for i := 0; i < len(vectors); i++\<close>, run over the indices left.\<close>

fun upsertPoints ::
  "Store \<Rightarrow> string list \<Rightarrow> rat list list \<Rightarrow> gomap option list \<Rightarrow> nat list \<Rightarrow> point list \<Rightarrow> world
     \<Rightarrow> (fault + point list) \<times> world" where
  "upsertPoints s texts vectors metadatas [] v w = (Inr v, w)"
| "upsertPoints s texts vectors metadatas (i # rest) v w =
     (case uuid_New w of
        (uuid, w1) \<Rightarrow>
          (case upsertPoint s texts vectors metadatas i uuid of
             Inl f \<Rightarrow> (Inl f, w1)
           | Inr p \<Rightarrow> upsertPoints s texts vectors metadatas rest (v @ [p]) w1))"

definition restUpsert ::
  "Store \<Rightarrow> world \<Rightarrow> string list \<Rightarrow> rat list list \<Rightarrow> gomap option list \<Rightarrow> string
     \<Rightarrow> fault option \<times> world" where
  "restUpsert s w texts vectors metadatas collection =
     (case upsertPoints s texts vectors metadatas [0..<length vectors] [] w of
        (Inl f, w1) \<Rightarrow> (Some f, w1)
      | (Inr v, w1) \<Rightarrow>
          (case doRequest w1 (UpsertPayload v) (getEndpoint (baseURL s) collection ''/points'')
                  (apiKey s) ''PUT'' of
             (Inl err, w2) \<Rightarrow> (Some (Error err), w2)
           | (Inr (body, status), w2) \<Rightarrow>
               if status = 200 then (None, w2)
               else (Some (Error (newAPIError ''upserting vectors'' body)), w2)))"

definition restDeletePoints :: "Store \<Rightarrow> world \<Rightarrow> string \<Rightarrow> any \<Rightarrow> error option \<times> world" where
  "restDeletePoints s w collection flt =
     (case doRequest w (DeletePayload flt) (getEndpoint (baseURL s) collection ''/points/delete'')
             (apiKey s) ''POST'' of
        (Inl err, w1) \<Rightarrow> (Some err, w1)
      | (Inr (body, statusCode), w1) \<Rightarrow>
          if statusCode = 200 then (None, w1)
          else (Some (newAPIError ''deleting points'' body), w1))"

definition restNewCollection :: "Store \<Rightarrow> world \<Rightarrow> string \<Rightarrow> error option \<times> world" where
  "restNewCollection s w collection =
     (let config = map_assign (collectionConfig s) ''name'' (AStr collection)
      in case doRequest w (CollectionPayload config) (getEndpoint (baseURL s) collection [])
                (apiKey s) ''PUT'' of
           (Inl err, w1) \<Rightarrow> (Some err, w1)
         | (Inr (body, status), w1) \<Rightarrow>
             if status = 200 then (None, w1)
             else (Some (newAPIError ''creating collection'' body), w1))"

definition restIndexMetadataKey :: "Store \<Rightarrow> world \<Rightarrow> string \<Rightarrow> string \<Rightarrow> error option \<times> world" where
  "restIndexMetadataKey s w collection key =
     (case doRequest w (IndexPayload key ''keyword'') (getEndpoint (baseURL s) collection ''/index'')
             (apiKey s) ''PUT'' of
        (Inl err, w1) \<Rightarrow> (Some err, w1)
      | (Inr (body, status), w1) \<Rightarrow>
          if status = 200 then (None, w1)
          else (Some (newAPIError ''indexing metadata key'' body), w1))"

text \<open>
  The decoding loop of \<open>restQuery\<close>: the checked assertion on the content, the
  unchecked one on the metadata, then the threshold test.
\<close>

fun queryDocs :: "Store \<Rightarrow> rat \<Rightarrow> scoredPoint list \<Rightarrow> Document list \<Rightarrow> fault + Document list" where
  "queryDocs s scoreThreshold [] docs = Inr docs"
| "queryDocs s scoreThreshold (spoint # rest) docs =
     (case index_map (sp_Payload spoint) (contentKey s) of
        AStr pageContent \<Rightarrow>
          (case index_map (sp_Payload spoint) (metadataKey s) of
             AMap md \<Rightarrow>
               (let doc = \<lparr>PageContent = pageContent, Metadata = Some md,
                            Score = sp_Score spoint\<rparr>
                in if scoreThreshold \<noteq> 0 \<and> scoreThreshold \<le> sp_Score spoint
                   then queryDocs s scoreThreshold rest (docs @ [doc])
                   else if scoreThreshold = 0
                   then queryDocs s scoreThreshold rest (docs @ [doc])
                   else queryDocs s scoreThreshold rest docs)
           | _ \<Rightarrow> Inl (Panic ''interface conversion: interface {} is not map[string]interface {}''))
      | _ \<Rightarrow> Inl (Error ErrMissingTextKey))"

definition restQuery ::
  "Store \<Rightarrow> world \<Rightarrow> rat list \<Rightarrow> int \<Rightarrow> string \<Rightarrow> rat \<Rightarrow> any \<Rightarrow> (fault + Document list) \<times> world" where
  "restQuery s w vector numVectors collection scoreThreshold flt =
     (let pl = \<lparr>WithVector = True, WithPayload = True, qp_Vector = vector,
                 Limit = numVectors, Filter = flt, ScoreThreshold = scoreThreshold\<rparr>
      in case doRequest w (QueryPayload pl) (getEndpoint (baseURL s) collection ''/points/search'')
                (apiKey s) ''POST'' of
           (Inl err, w1) \<Rightarrow> (Inl (Error err), w1)
         | (Inr (body, statusCode), w1) \<Rightarrow>
             if statusCode \<noteq> 200 then (Inl (Error (newAPIError ''querying index'' body)), w1)
             else
               (case decode_queries w1 body of
                  Inl err \<Rightarrow> (Inl (Error err), w1)
                | Inr response \<Rightarrow>
                    if length (qr_Result response) = 0 then (Inl (Error ErrEmptyResponse), w1)
                    else (queryDocs s scoreThreshold (qr_Result response) [], w1)))"

fun scrollDocs :: "Store \<Rightarrow> point list \<Rightarrow> Document list \<Rightarrow> fault + Document list" where
  "scrollDocs s [] docs = Inr docs"
| "scrollDocs s (spoint # rest) docs =
     (case index_map (Payload spoint) (contentKey s) of
        AStr pageContent \<Rightarrow>
          (case index_map (Payload spoint) (metadataKey s) of
             AMap md \<Rightarrow>
               scrollDocs s rest
                 (docs @ [\<lparr>PageContent = pageContent, Metadata = Some md, Score = 0\<rparr>])
           | _ \<Rightarrow> Inl (Panic ''interface conversion: interface {} is not map[string]interface {}''))
      | _ \<Rightarrow> Inl (Error ErrMissingTextKey))"

definition restScrollPoints ::
  "Store \<Rightarrow> world \<Rightarrow> string \<Rightarrow> ScrollPointsRequest \<Rightarrow> (fault + Document list \<times> string) \<times> world" where
  "restScrollPoints s w collection req =
     (case doRequest w (ScrollPayload req) (getEndpoint (baseURL s) collection ''/points/scroll'')
             (apiKey s) ''POST'' of
        (Inl err, w1) \<Rightarrow> (Inl (Error err), w1)
      | (Inr (body, statusCode), w1) \<Rightarrow>
          if statusCode \<noteq> 200 then (Inl (Error (newAPIError ''scrolling points'' body)), w1)
          else
            (case decode_scroll w1 body of
               Inl err \<Rightarrow> (Inl (Error err), w1)
             | Inr response \<Rightarrow>
                 (case sr_Result response of
                    None \<Rightarrow> (Inl (Panic ''nil pointer dereference''), w1)
                  | Some res \<Rightarrow>
                      (case scrollDocs s (Points res) [] of
                         Inl f \<Rightarrow> (Inl f, w1)
                       | Inr docs \<Rightarrow>
                           (let nextOffset = (case NextPageOffset res of None \<Rightarrow> [] | Some off \<Rightarrow> off)
                            in (Inr (docs, nextOffset), w1))))))"

subsection \<open>The earlier generation of \<open>restQuery\<close>\<close>

text \<open>
  The package comes in two generations. The earlier one keeps the content among the
  metadata, under a single text key: its decoding loop reads the string under
  \<open>textKey\<close>, deletes that key from the payload and takes what is left as the metadata.
  The threshold test is the same. \<open>delete(m, k)\<close> removes the binding of \<open>k\<close>.
\<close>

definition map_delete :: "gomap \<Rightarrow> string \<Rightarrow> gomap" where
  "map_delete m k = filter (\<lambda>kv. fst kv \<noteq> k) m"

fun textQueryDocs :: "string \<Rightarrow> rat \<Rightarrow> scoredPoint list \<Rightarrow> Document list \<Rightarrow> fault + Document list" where
  "textQueryDocs textKey scoreThreshold [] docs = Inr docs"
| "textQueryDocs textKey scoreThreshold (spoint # rest) docs =
     (case index_map (sp_Payload spoint) textKey of
        AStr pageContent \<Rightarrow>
          (let doc = \<lparr>PageContent = pageContent,
                       Metadata = Some (map_delete (sp_Payload spoint) textKey),
                       Score = sp_Score spoint\<rparr>
           in if scoreThreshold \<noteq> 0 \<and> scoreThreshold \<le> sp_Score spoint
              then textQueryDocs textKey scoreThreshold rest (docs @ [doc])
              else if scoreThreshold = 0
              then textQueryDocs textKey scoreThreshold rest (docs @ [doc])
              else textQueryDocs textKey scoreThreshold rest docs)
      | _ \<Rightarrow> Inl (Error ErrMissingTextKey))"

subsection \<open>Options\<close>

text \<open>
  Modelled from the spec: the struct \<open>vectorstores.Options\<close> is declared outside the
  files at hand. Of its fields the store reads the per-call embedder override, the score
  threshold and the filter; a per-call option is a function that sets fields of it.
\<close>

record Options =
  opt_Embedder :: "Embedder option"
  opt_ScoreThreshold :: rat
  opt_Filters :: any

definition zero_Options :: Options where
  "zero_Options = \<lparr>opt_Embedder = None, opt_ScoreThreshold = 0, opt_Filters = ANil\<rparr>"

text \<open>
  Modelled from the spec: the per-call option \<open>vectorstores.WithEmbedder\<close>, declared
  outside the files at hand, sets the embedder override of the call.
\<close>

definition vs_WithEmbedder :: "Embedder \<Rightarrow> Options \<Rightarrow> Options" where
  "vs_WithEmbedder e opts = opts\<lparr>opt_Embedder := Some e\<rparr>"

definition defaultCollectionConfig :: gomap where
  "defaultCollectionConfig =
     [(''optimizers_config'', AMap [(''memmap_threshold'', ANum 10000)]),
      (''vectors'', AMap [(''size'', ANum 1536), (''distance'', AStr ''Cosine'')]),
      (''on_disk_payload'', ABool True)]"

definition WithEmbedder :: "Embedder option \<Rightarrow> Store \<Rightarrow> Store" where
  "WithEmbedder e p = p\<lparr>embedder := e\<rparr>"

definition WithCollectionConfig :: "gomap \<Rightarrow> Store \<Rightarrow> Store" where
  "WithCollectionConfig config p = p\<lparr>collectionConfig := config\<rparr>"

definition WithContentKey :: "string \<Rightarrow> Store \<Rightarrow> Store" where
  "WithContentKey k p = p\<lparr>contentKey := k\<rparr>"

definition WithMetadataKey :: "string \<Rightarrow> Store \<Rightarrow> Store" where
  "WithMetadataKey k p = p\<lparr>metadataKey := k\<rparr>"

definition WithIndexKeys :: "string list \<Rightarrow> Store \<Rightarrow> Store" where
  "WithIndexKeys ks p = p\<lparr>indexKeys := ks\<rparr>"

definition WithAPIKey :: "string \<Rightarrow> Store \<Rightarrow> Store" where
  "WithAPIKey k p = p\<lparr>apiKey := k\<rparr>"

definition WithBaseURL :: "string \<Rightarrow> Store \<Rightarrow> Store" where
  "WithBaseURL u p = p\<lparr>baseURL := u\<rparr>"

definition WithUseCloud :: "bool \<Rightarrow> Store \<Rightarrow> Store" where
  "WithUseCloud c p = p\<lparr>useCloud := c\<rparr>"

definition WithCollectionName :: "string \<Rightarrow> Store \<Rightarrow> Store" where
  "WithCollectionName n p = p\<lparr>collectionName := n\<rparr>"

text \<open>The options run in order on the defaults; then the four checks, in the source's order.\<close>

definition applyClientOptions :: "world \<Rightarrow> (Store \<Rightarrow> Store) list \<Rightarrow> Store \<times> error option" where
  "applyClientOptions w opts =
     (let o0 = fold (\<lambda>opt st. opt st) opts
                 (zero_Store\<lparr>contentKey := ''page_content'', metadataKey := ''metadata'',
                    collectionConfig := defaultCollectionConfig\<rparr>)
      in if embedder o0 = None
         then (zero_Store, Some (ErrInvalidOptions ''missing embedder''))
         else
           (let o1 = (if apiKey o0 = [] then o0\<lparr>apiKey := getenv w ''QDRANT_API_KEY''\<rparr> else o0)
            in if apiKey o0 = [] \<and> useCloud o1 \<and> apiKey o1 = []
               then (zero_Store, Some (ErrInvalidOptions ''missing api key''))
               else
                 (let o2 = (if baseURL o1 = []
                            then o1\<lparr>baseURL := getenv w ''QDRANT_BASE_URL''\<rparr> else o1)
                  in if baseURL o2 = []
                     then (zero_Store, Some (ErrInvalidOptions ''missing api url''))
                     else if collectionName o2 = []
                     then (zero_Store, Some (ErrInvalidOptions ''missing collection name''))
                     else (o2, None))))"

subsection \<open>qdrant.go\<close>

text \<open>
  \<open>New\<close> calls \<open>restNewCollection\<close> and, for each index key, \<open>restIndexMetadataKey\<close>
  as statements: what they return is dropped, only the world moves on.
\<close>

definition New :: "world \<Rightarrow> (Store \<Rightarrow> Store) list \<Rightarrow> (Store \<times> error option) \<times> world" where
  "New w opts =
     (case applyClientOptions w opts of
        (s, Some err) \<Rightarrow> ((zero_Store, Some err), w)
      | (s, None) \<Rightarrow>
          (let w1 = snd (restNewCollection s w (collectionName s));
               w2 = fold (\<lambda>indexKey w'. snd (restIndexMetadataKey s w' (collectionName s) indexKey))
                      (indexKeys s) w1
           in ((s, None), w2)))"

definition getOptions :: "(Options \<Rightarrow> Options) list \<Rightarrow> Options" where
  "getOptions options = fold (\<lambda>opt opts. opt opts) options zero_Options"

definition getEmbedder :: "Store \<Rightarrow> Options \<Rightarrow> Embedder option" where
  "getEmbedder s options =
     (if opt_Embedder options \<noteq> None then opt_Embedder options else embedder s)"

definition getFilters :: "Options \<Rightarrow> any" where
  "getFilters opts = (if opt_Filters opts \<noteq> ANil then opt_Filters opts else ANil)"

definition getScoreThreshold :: "Options \<Rightarrow> rat \<times> error option" where
  "getScoreThreshold opts =
     (if opt_ScoreThreshold opts < 0 \<or> opt_ScoreThreshold opts > 1
      then (0, Some ErrInvalidScoreThreshold)
      else (opt_ScoreThreshold opts, None))"

text \<open>
  \<open>AddDocuments\<close>. The count check looks at the store's own embedder (\<open>s.embedder\<close>),
  not at the embedder that produced the vectors. A method call on a nil embedder panics.
\<close>

definition AddDocuments ::
  "Store \<Rightarrow> world \<Rightarrow> Document list \<Rightarrow> (Options \<Rightarrow> Options) list \<Rightarrow> fault option \<times> world" where
  "AddDocuments s w docs options =
     (let opts = getOptions options;
          texts = map PageContent docs
      in case getEmbedder s opts of
           None \<Rightarrow> (Some (Panic ''nil pointer dereference''), w)
         | Some e \<Rightarrow>
             (case EmbedDocuments e texts of
                Inl err \<Rightarrow> (Some (Error err), w)
              | Inr vectors \<Rightarrow>
                  if \<not> isNilEmbedder (embedder s) \<and> length vectors \<noteq> length docs
                  then (Some (Error ErrEmbedderWrongNumberVectors), w)
                  else restUpsert s w texts vectors (map Metadata docs) (collectionName s)))"

definition SimilaritySearch ::
  "Store \<Rightarrow> world \<Rightarrow> string \<Rightarrow> int \<Rightarrow> (Options \<Rightarrow> Options) list
     \<Rightarrow> (fault + Document list) \<times> world" where
  "SimilaritySearch s w query numDocuments options =
     (let opts = getOptions options;
          filters = getFilters opts
      in case getScoreThreshold opts of
           (thr, Some err) \<Rightarrow> (Inl (Error err), w)
         | (scoreThreshold, None) \<Rightarrow>
             (case getEmbedder s opts of
                None \<Rightarrow> (Inl (Panic ''nil pointer dereference''), w)
              | Some e \<Rightarrow>
                  (case EmbedQuery e query of
                     Inl err \<Rightarrow> (Inl (Error err), w)
                   | Inr vector \<Rightarrow>
                       restQuery s w vector numDocuments (collectionName s) scoreThreshold
                         filters)))"

subsection \<open>Notions the statements are written with\<close>

text \<open>
  The document the decoding loops build from a payload whose content is a string and
  whose metadata is a mapping, and the test that a payload is of that shape.
\<close>

fun isStr :: "any \<Rightarrow> bool" where
  "isStr (AStr c) = True"
| "isStr _ = False"

fun isMap :: "any \<Rightarrow> bool" where
  "isMap (AMap m) = True"
| "isMap _ = False"

fun theStr :: "any \<Rightarrow> string" where
  "theStr (AStr c) = c"
| "theStr _ = []"

fun theMap :: "any \<Rightarrow> gomap option" where
  "theMap (AMap m) = Some m"
| "theMap _ = None"

definition decodable :: "Store \<Rightarrow> gomap \<Rightarrow> bool" where
  "decodable s pl = (isStr (index_map pl (contentKey s)) \<and> isMap (index_map pl (metadataKey s)))"

definition decoded :: "Store \<Rightarrow> gomap \<Rightarrow> rat \<Rightarrow> Document" where
  "decoded s pl sc = \<lparr>PageContent = theStr (index_map pl (contentKey s)),
     Metadata = theMap (index_map pl (metadataKey s)), Score = sc\<rparr>"

definition keeps :: "rat \<Rightarrow> scoredPoint \<Rightarrow> bool" where
  "keeps scoreThreshold p = (scoreThreshold = 0 \<or> scoreThreshold \<le> sp_Score p)"

text \<open>The document the earlier generation builds from a point.\<close>

definition text_decoded :: "string \<Rightarrow> scoredPoint \<Rightarrow> Document" where
  "text_decoded textKey p = \<lparr>PageContent = theStr (index_map (sp_Payload p) textKey),
     Metadata = Some (map_delete (sp_Payload p) textKey), Score = sp_Score p\<rparr>"

text \<open>The requests the operations send.\<close>

definition queryRequest :: "Store \<Rightarrow> rat list \<Rightarrow> int \<Rightarrow> string \<Rightarrow> rat \<Rightarrow> any \<Rightarrow> request" where
  "queryRequest s vector numVectors collection scoreThreshold flt =
     \<lparr>req_method = ''POST'',
      req_url = getEndpoint (baseURL s) collection ''/points/search'',
      req_apiKey = apiKey s,
      req_payload = QueryPayload \<lparr>WithVector = True, WithPayload = True, qp_Vector = vector,
        Limit = numVectors, Filter = flt, ScoreThreshold = scoreThreshold\<rparr>\<rparr>"

definition scrollRequest :: "Store \<Rightarrow> string \<Rightarrow> ScrollPointsRequest \<Rightarrow> request" where
  "scrollRequest s collection req =
     \<lparr>req_method = ''POST'',
      req_url = getEndpoint (baseURL s) collection ''/points/scroll'',
      req_apiKey = apiKey s,
      req_payload = ScrollPayload req\<rparr>"

definition collectionRequest :: "Store \<Rightarrow> request" where
  "collectionRequest s =
     \<lparr>req_method = ''PUT'',
      req_url = getEndpoint (baseURL s) (collectionName s) [],
      req_apiKey = apiKey s,
      req_payload = CollectionPayload
        (map_assign (collectionConfig s) ''name'' (AStr (collectionName s)))\<rparr>"

definition indexRequest :: "Store \<Rightarrow> string \<Rightarrow> request" where
  "indexRequest s key =
     \<lparr>req_method = ''PUT'',
      req_url = getEndpoint (baseURL s) (collectionName s) ''/index'',
      req_apiKey = apiKey s,
      req_payload = IndexPayload key ''keyword''\<rparr>"

definition upsertRequest :: "Store \<Rightarrow> string \<Rightarrow> point list \<Rightarrow> request" where
  "upsertRequest s collection v =
     \<lparr>req_method = ''PUT'',
      req_url = getEndpoint (baseURL s) collection ''/points'',
      req_apiKey = apiKey s,
      req_payload = UpsertPayload v\<rparr>"

text \<open>
  The store as the options leave it, before the checks of \<open>applyClientOptions\<close>, and
  the test \<open>errors.Is(err, ErrInvalidOptions)\<close>.
\<close>

definition configured :: "(Store \<Rightarrow> Store) list \<Rightarrow> Store" where
  "configured opts = fold (\<lambda>opt st. opt st) opts
     (zero_Store\<lparr>contentKey := ''page_content'', metadataKey := ''metadata'',
        collectionConfig := defaultCollectionConfig\<rparr>)"

fun isInvalidOptions :: "error option \<Rightarrow> bool" where
  "isInvalidOptions (Some (ErrInvalidOptions msg)) = True"
| "isInvalidOptions _ = False"

text \<open>
  The point ID a document supplies: the string under \<open>__point_id\<close> in its metadata,
  if there is one. A metadata map is accepted by \<open>restUpsert\<close> when the value under
  \<open>__point_id\<close> is nil or a string.
\<close>

definition supplied_id :: "gomap option \<Rightarrow> string option" where
  "supplied_id md =
     (case md of
        None \<Rightarrow> None
      | Some m \<Rightarrow> (case index_map m ''__point_id'' of AStr pid \<Rightarrow> Some pid | _ \<Rightarrow> None))"

definition id_accepted :: "gomap option \<Rightarrow> bool" where
  "id_accepted md =
     (case md of
        None \<Rightarrow> True
      | Some m \<Rightarrow>
          (case index_map m ''__point_id'' of ANil \<Rightarrow> True | AStr pid \<Rightarrow> True | _ \<Rightarrow> False))"

definition written ::
  "Store \<Rightarrow> string list \<Rightarrow> rat list list \<Rightarrow> gomap option list \<Rightarrow> nat \<Rightarrow> string \<Rightarrow> point" where
  "written s texts vectors metadatas i uuid =
     \<lparr>Vector = vectors ! i,
      Payload = map_literal2 (contentKey s) (AStr (texts ! i))
                  (metadataKey s) (to_any (metadatas ! i)),
      ID = (case supplied_id (metadatas ! i) of Some pid \<Rightarrow> pid | None \<Rightarrow> uuid)\<rparr>"

subsection \<open>A store and a world to run the code on\<close>

definition cities_store :: Store where
  "cities_store = \<lparr>embedder = Some NilEmbedder, useCloud = False, apiKey = [],
     baseURL = ''http://localhost:6333'', collectionName = ''cities'',
     contentKey = ''page_content'', metadataKey = ''metadata'', indexKeys = [],
     collectionConfig = defaultCollectionConfig\<rparr>"

definition count_uuid :: "nat \<Rightarrow> string" where
  "count_uuid n = ''uuid-'' @ replicate n (CHR ''i'')"

text \<open>
  A server that answers every request with status \<open>code\<close>; the decoder reads the given
  query result and scroll result out of every body.
\<close>

definition serving :: "int \<Rightarrow> scoredPoint list \<Rightarrow> scrollResult option \<Rightarrow> world" where
  "serving code result page =
     \<lparr>getenv = (\<lambda>name. []),
      uuid_gen = count_uuid,
      uuid_count = 0,
      http_do = (\<lambda>log req. Inr (Body ''{}'', code)),
      decode_queries = (\<lambda>body. Inr \<lparr>qr_Time = 0, qr_Status = ''ok'', qr_Result = result\<rparr>),
      decode_scroll = (\<lambda>body. Inr \<lparr>sr_Time = 0, sr_Status = ''ok'', sr_Result = page\<rparr>),
      sent = []\<rparr>"

definition scored :: "rat \<Rightarrow> point \<Rightarrow> scoredPoint" where
  "scored sc p = \<lparr>sp_ID = ID p, sp_Version = 0, sp_Score = sc, sp_Payload = Payload p,
     sp_Vector = Vector p\<rparr>"

definition tokyo :: scoredPoint where
  "tokyo = \<lparr>sp_ID = ''a'', sp_Version = 0, sp_Score = 9 / 10,
     sp_Payload = [(''page_content'', AStr ''Tokyo''),
                   (''metadata'', AMap [(''country'', AStr ''Japan'')])],
     sp_Vector = []\<rparr>"

definition paris :: scoredPoint where
  "paris = \<lparr>sp_ID = ''b'', sp_Version = 0, sp_Score = 1 / 2,
     sp_Payload = [(''page_content'', AStr ''Paris''),
                   (''metadata'', AMap [(''country'', AStr ''France'')])],
     sp_Vector = []\<rparr>"

definition no_text :: scoredPoint where
  "no_text = \<lparr>sp_ID = ''c'', sp_Version = 0, sp_Score = 1,
     sp_Payload = [(''text'', AStr ''Lima''), (''metadata'', AMap [])], sp_Vector = []\<rparr>"

definition low_no_text :: scoredPoint where
  "low_no_text = \<lparr>sp_ID = ''f'', sp_Version = 0, sp_Score = 1 / 2,
     sp_Payload = [(''metadata'', AMap [(''country'', AStr ''Peru'')])], sp_Vector = []\<rparr>"

definition tokyo_point :: point where
  "tokyo_point = \<lparr>Vector = [], Payload = [(''page_content'', AStr ''Tokyo''),
     (''metadata'', AMap [(''country'', AStr ''Japan'')])], ID = ''a''\<rparr>"

definition no_text_point :: point where
  "no_text_point = \<lparr>Vector = [], Payload = [(''page_content'', ANum 7),
     (''metadata'', AMap [])], ID = ''c''\<rparr>"

definition lima_point :: point where
  "lima_point = \<lparr>Vector = [], Payload = [(''page_content'', AStr ''Lima''),
     (''metadata'', AMap [(''country'', AStr ''Peru'')])], ID = ''d''\<rparr>"

definition scroll_cities :: ScrollPointsRequest where
  "scroll_cities = \<lparr>Offset = [], sc_Limit = 1, sc_Filter = ANil, sc_WithPayload = True,
     sc_WithVector = False\<rparr>"

definition tokyo_doc :: Document where
  "tokyo_doc = \<lparr>PageContent = ''Tokyo'', Metadata = None, Score = 0\<rparr>"

definition tokyo_written :: point where
  "tokyo_written = \<lparr>Vector = NewNilVector,
     Payload = [(''page_content'', AStr ''Tokyo''), (''metadata'', ANil)], ID = ''uuid-''\<rparr>"

definition no_metadata :: scoredPoint where
  "no_metadata = \<lparr>sp_ID = ''e'', sp_Version = 0, sp_Score = 1,
     sp_Payload = [(''page_content'', AStr ''Tokyo'')], sp_Vector = []\<rparr>"

definition no_metadata_point :: point where
  "no_metadata_point = \<lparr>Vector = [], Payload = [(''page_content'', AStr ''Tokyo'')],
     ID = ''e''\<rparr>"

definition silent_embedder :: Embedder where
  "silent_embedder = CustomEmbedder (\<lambda>texts. Inr []) (\<lambda>text. Inr [])"

definition tokyo_flat :: scoredPoint where
  "tokyo_flat = \<lparr>sp_ID = ''a'', sp_Version = 0, sp_Score = 9 / 10,
     sp_Payload = [(''country'', AStr ''Japan''), (''text'', AStr ''Tokyo'')], sp_Vector = []\<rparr>"

subsection \<open>Facts about the decoding loops\<close>

lemma doRequest_fst: "fst (doRequest w pl url key m) =
   http_do w (sent w) \<lparr>req_method = m, req_url = url, req_apiKey = key, req_payload = pl\<rparr>"
  by (simp add: doRequest_def Let_def)

lemma doRequest_snd: "snd (doRequest w pl url key m) =
   w\<lparr>sent := sent w @ [\<lparr>req_method = m, req_url = url, req_apiKey = key, req_payload = pl\<rparr>]\<rparr>"
  by (simp add: doRequest_def Let_def)

lemma queryDocs_step:
  assumes "decodable s (sp_Payload p)"
  shows "queryDocs s thr (p # pts) docs =
      (if keeps thr p
       then queryDocs s thr pts (docs @ [decoded s (sp_Payload p) (sp_Score p)])
       else queryDocs s thr pts docs)"
proof -
  from assms obtain c md where c: "index_map (sp_Payload p) (contentKey s) = AStr c"
    and md: "index_map (sp_Payload p) (metadataKey s) = AMap md"
    unfolding decodable_def
    by (metis isStr.elims(2) isMap.elims(2))
  have dp: "decoded s (sp_Payload p) (sp_Score p) =
      \<lparr>PageContent = c, Metadata = Some md, Score = sp_Score p\<rparr>"
    by (simp add: decoded_def c md)
  show ?thesis
    by (auto simp: Let_def c md dp keeps_def)
qed

lemma queryDocs_decodable:
  "\<forall>p \<in> set pts. decodable s (sp_Payload p) \<Longrightarrow>
   queryDocs s thr pts docs =
     Inr (docs @ map (\<lambda>p. decoded s (sp_Payload p) (sp_Score p)) (filter (keeps thr) pts))"
proof (induction pts arbitrary: docs)
  case Nil
  then show ?case by simp
next
  case (Cons p pts)
  then show ?case
    by (simp del: queryDocs.simps add: queryDocs_step)
qed

lemma queryDocs_Inr_decodable:
  "queryDocs s thr pts docs = Inr ds \<Longrightarrow> \<forall>p \<in> set pts. decodable s (sp_Payload p)"
proof (induction pts arbitrary: docs)
  case Nil
  then show ?case by simp
next
  case (Cons p pts)
  then show ?case
    by (auto simp: decodable_def Let_def split: any.splits if_splits)
qed

lemma queryDocs_not_empty_response:
  "queryDocs s thr pts docs \<noteq> Inl (Error ErrEmptyResponse)"
  by (induction pts arbitrary: docs) (auto simp: Let_def split: any.splits)

lemma restQuery_200:
  assumes "http_do w (sent w) (queryRequest s vector n coll thr flt) = Inr (body, 200)"
    and "decode_queries w body = Inr response"
  shows "fst (restQuery s w vector n coll thr flt) =
     (if qr_Result response = [] then Inl (Error ErrEmptyResponse)
      else queryDocs s thr (qr_Result response) [])"
  using assms
  by (simp add: restQuery_def doRequest_def queryRequest_def Let_def)


lemma queryDocs_bad_content:
  assumes "\<forall>q \<in> set pre. decodable s (sp_Payload q)"
    and "\<not> isStr (index_map (sp_Payload p) (contentKey s))"
  shows "queryDocs s thr (pre @ p # post) docs = Inl (Error ErrMissingTextKey)"
  using assms
proof (induction pre arbitrary: docs)
  case Nil
  then show ?case
    by (cases "index_map (sp_Payload p) (contentKey s)") simp_all
next
  case (Cons q pre)
  then show ?case
    by (simp del: queryDocs.simps add: queryDocs_step)
qed

lemma scrollDocs_step:
  assumes "decodable s (Payload p)"
  shows "scrollDocs s (p # pts) docs = scrollDocs s pts (docs @ [decoded s (Payload p) 0])"
proof -
  from assms obtain c md where c: "index_map (Payload p) (contentKey s) = AStr c"
    and md: "index_map (Payload p) (metadataKey s) = AMap md"
    unfolding decodable_def
    by (metis isStr.elims(2) isMap.elims(2))
  show ?thesis
    by (simp add: c md decoded_def)
qed

lemma scrollDocs_decodable:
  "\<forall>p \<in> set pts. decodable s (Payload p) \<Longrightarrow>
   scrollDocs s pts docs = Inr (docs @ map (\<lambda>p. decoded s (Payload p) 0) pts)"
  by (induction pts arbitrary: docs) (simp_all del: scrollDocs.simps(2) add: scrollDocs_step)

lemma scrollDocs_bad_content:
  assumes "\<forall>q \<in> set pre. decodable s (Payload q)"
    and "\<not> isStr (index_map (Payload p) (contentKey s))"
  shows "scrollDocs s (pre @ p # post) docs = Inl (Error ErrMissingTextKey)"
  using assms
proof (induction pre arbitrary: docs)
  case Nil
  then show ?case
    by (cases "index_map (Payload p) (contentKey s)") simp_all
next
  case (Cons q pre)
  then show ?case
    by (simp del: scrollDocs.simps add: scrollDocs_step)
qed

lemma scrollDocs_Inr_decodable:
  "scrollDocs s pts docs = Inr ds \<Longrightarrow> \<forall>p \<in> set pts. decodable s (Payload p)"
proof (induction pts arbitrary: docs)
  case Nil
  then show ?case by simp
next
  case (Cons p pts)
  then show ?case
    by (auto simp: decodable_def split: any.splits)
qed

lemma restScrollPoints_200:
  assumes "http_do w (sent w) (scrollRequest s coll req) = Inr (body, 200)"
    and "decode_scroll w body = Inr response"
  shows "fst (restScrollPoints s w coll req) =
     (case sr_Result response of
        None \<Rightarrow> Inl (Panic ''nil pointer dereference'')
      | Some res \<Rightarrow>
          (case scrollDocs s (Points res) [] of
             Inl f \<Rightarrow> Inl f
           | Inr docs \<Rightarrow>
               Inr (docs, case NextPageOffset res of None \<Rightarrow> [] | Some off \<Rightarrow> off)))"
  using assms
  by (simp add: restScrollPoints_def doRequest_def scrollRequest_def Let_def
      split: option.splits sum.splits)

lemma textQueryDocs_step:
  assumes "isStr (index_map (sp_Payload p) textKey)"
  shows "textQueryDocs textKey thr (p # pts) docs =
      (if keeps thr p
       then textQueryDocs textKey thr pts (docs @ [text_decoded textKey p])
       else textQueryDocs textKey thr pts docs)"
proof -
  from assms obtain c where c: "index_map (sp_Payload p) textKey = AStr c"
    by (metis isStr.elims(2))
  have dp: "text_decoded textKey p = \<lparr>PageContent = c,
      Metadata = Some (map_delete (sp_Payload p) textKey), Score = sp_Score p\<rparr>"
    by (simp add: text_decoded_def c)
  show ?thesis
    by (auto simp: Let_def c dp keeps_def)
qed

lemma textQueryDocs_strings:
  "\<forall>p \<in> set pts. isStr (index_map (sp_Payload p) textKey) \<Longrightarrow>
   textQueryDocs textKey thr pts docs =
     Inr (docs @ map (text_decoded textKey) (filter (keeps thr) pts))"
  by (induction pts arbitrary: docs)
    (simp_all del: textQueryDocs.simps(2) add: textQueryDocs_step)

lemma textQueryDocs_bad_content:
  assumes "\<forall>q \<in> set pre. isStr (index_map (sp_Payload q) textKey)"
    and "\<not> isStr (index_map (sp_Payload p) textKey)"
  shows "textQueryDocs textKey thr (pre @ p # post) docs = Inl (Error ErrMissingTextKey)"
  using assms
proof (induction pre arbitrary: docs)
  case Nil
  then show ?case
    by (cases "index_map (sp_Payload p) textKey") simp_all
next
  case (Cons q pre)
  then show ?case
    by (simp del: textQueryDocs.simps add: textQueryDocs_step)
qed

lemma textQueryDocs_Inr_strings:
  "textQueryDocs textKey thr pts docs = Inr ds \<Longrightarrow>
   \<forall>p \<in> set pts. isStr (index_map (sp_Payload p) textKey)"
proof (induction pts arbitrary: docs)
  case Nil
  then show ?case by simp
next
  case (Cons p pts)
  then show ?case
    by (auto simp: Let_def split: any.splits if_splits)
qed

lemma keeps_eq: "keeps thr = (\<lambda>p. thr = 0 \<or> thr \<le> sp_Score p)"
  by (rule ext) (simp add: keeps_def)

section \<open>Similarity queries\<close>

lemmas run_simps = restQuery_def restScrollPoints_def doRequest_def queryRequest_def
  scrollRequest_def serving_def cities_store_def getEndpoint_def hasPrefix_def
  decodable_def decoded_def index_map_def keeps_def Let_def

text \<open>
  C3, as stated, fails: in a non-empty result, a point that decodes and passes the
  threshold (here the threshold is 0) is not returned when a later point has no string
  under the content key; the whole query fails with \<open>ErrMissingTextKey\<close>.
\<close>

theorem restQuery_threshold_counterexample:
  "decodable cities_store (sp_Payload tokyo)
   \<and> keeps 0 tokyo
   \<and> fst (restQuery cities_store (serving 200 [tokyo, no_text] None) [] 2 ''cities'' 0 ANil)
       = Inl (Error ErrMissingTextKey)"
  by (simp add: run_simps tokyo_def no_text_def)

text \<open>
  C3, amended. When the search request is answered with status 200 and a non-empty result whose
  points all decode, \<open>restQuery\<close> returns the decoded documents of exactly the points
  with \<open>scoreThreshold = 0\<close> or \<open>score \<ge> scoreThreshold\<close>, in the order of the
  response; with threshold 0 these are all of them. The decoding loop of the earlier
  generation keeps the same points, in the same order.
\<close>

theorem restQuery_threshold:
  assumes "http_do w (sent w) (queryRequest s vector n coll thr flt) = Inr (body, 200)"
    and "decode_queries w body = Inr response"
    and "qr_Result response \<noteq> []"
    and "\<forall>p \<in> set (qr_Result response). decodable s (sp_Payload p)"
  shows "fst (restQuery s w vector n coll thr flt) =
           Inr (map (\<lambda>p. decoded s (sp_Payload p) (sp_Score p))
                  (filter (\<lambda>p. thr = 0 \<or> thr \<le> sp_Score p) (qr_Result response)))
         \<and> (thr = 0 \<longrightarrow> fst (restQuery s w vector n coll thr flt) =
           Inr (map (\<lambda>p. decoded s (sp_Payload p) (sp_Score p)) (qr_Result response)))
         \<and> ((\<forall>p \<in> set (qr_Result response). isStr (index_map (sp_Payload p) textKey)) \<longrightarrow>
              textQueryDocs textKey thr (qr_Result response) [] =
                Inr (map (text_decoded textKey)
                       (filter (\<lambda>p. thr = 0 \<or> thr \<le> sp_Score p) (qr_Result response))))"
proof -
  have "fst (restQuery s w vector n coll thr flt) = queryDocs s thr (qr_Result response) []"
    using restQuery_200 [OF assms(1,2)] assms(3) by simp
  also have "\<dots> = Inr (map (\<lambda>p. decoded s (sp_Payload p) (sp_Score p))
                       (filter (keeps thr) (qr_Result response)))"
    using queryDocs_decodable [OF assms(4)] by simp
  finally have main: "fst (restQuery s w vector n coll thr flt) =
      Inr (map (\<lambda>p. decoded s (sp_Payload p) (sp_Score p))
             (filter (keeps thr) (qr_Result response)))" .
  have earlier: "textQueryDocs textKey thr (qr_Result response) [] =
      Inr (map (text_decoded textKey) (filter (keeps thr) (qr_Result response)))"
    if "\<forall>p \<in> set (qr_Result response). isStr (index_map (sp_Payload p) textKey)"
    using textQueryDocs_strings [OF that, of thr "[]"] by simp
  show ?thesis
    using main earlier unfolding keeps_eq by auto
qed

theorem restQuery_threshold_witness:
  "fst (restQuery cities_store (serving 200 [paris, tokyo] None) [] 2 ''cities'' (8 / 10) ANil) =
     Inr [\<lparr>PageContent = ''Tokyo'', Metadata = Some [(''country'', AStr ''Japan'')],
           Score = 9 / 10\<rparr>]
   \<and> textQueryDocs ''page_content'' (8 / 10) [paris, tokyo] [] =
     Inr [\<lparr>PageContent = ''Tokyo'',
           Metadata = Some [(''metadata'', AMap [(''country'', AStr ''Japan'')])],
           Score = 9 / 10\<rparr>]"
  using restQuery_threshold [of "serving 200 [paris, tokyo] None" cities_store "[]" 2 "''cities''"
      "8 / 10" ANil "Body ''{}''" "\<lparr>qr_Time = 0, qr_Status = ''ok'', qr_Result = [paris, tokyo]\<rparr>"
      "''page_content''"]
  by (simp add: serving_def cities_store_def tokyo_def paris_def decodable_def decoded_def
      index_map_def text_decoded_def map_delete_def)

text \<open>
  C2, as stated, fails: the result is not empty and the non-zero threshold 0.8 lies above
  the score of its only point, yet \<open>restQuery\<close> returns an error and not the empty
  sequence, because the content of the point is read before its score is compared.
\<close>

theorem restQuery_dropped_counterexample:
  "sp_Score low_no_text < 8 / 10
   \<and> fst (restQuery cities_store (serving 200 [low_no_text] None) [] 1 ''cities'' (8 / 10) ANil)
       = Inl (Error ErrMissingTextKey)"
  by (simp add: run_simps low_no_text_def)

text \<open>
  C2, amended. When the search request is answered with status 200 and the body decodes,
  \<open>restQuery\<close> returns \<open>ErrEmptyResponse\<close> exactly when the decoded result is empty.
  When the result is not empty, all its points decode and a non-zero threshold lies above
  the score of every point, it returns the empty sequence and no error.
\<close>

theorem restQuery_empty_response:
  assumes "http_do w (sent w) (queryRequest s vector n coll thr flt) = Inr (body, 200)"
    and "decode_queries w body = Inr response"
  shows "(fst (restQuery s w vector n coll thr flt) = Inl (Error ErrEmptyResponse))
           = (qr_Result response = [])
         \<and> (qr_Result response \<noteq> [] \<and> thr \<noteq> 0
              \<and> (\<forall>p \<in> set (qr_Result response). decodable s (sp_Payload p) \<and> sp_Score p < thr)
            \<longrightarrow> fst (restQuery s w vector n coll thr flt) = Inr [])"
proof -
  note run = restQuery_200 [OF assms]
  have iff: "(fst (restQuery s w vector n coll thr flt) = Inl (Error ErrEmptyResponse))
      = (qr_Result response = [])"
    using run queryDocs_not_empty_response [of s thr "qr_Result response" "[]"]
    by (cases "qr_Result response = []") simp_all
  have dropped: "fst (restQuery s w vector n coll thr flt) = Inr []"
    if ne: "qr_Result response \<noteq> []" and thr: "thr \<noteq> 0"
      and low: "\<forall>p \<in> set (qr_Result response). decodable s (sp_Payload p) \<and> sp_Score p < thr"
  proof -
    from low have dec: "\<forall>p \<in> set (qr_Result response). decodable s (sp_Payload p)"
      by simp
    from low thr have none: "filter (keeps thr) (qr_Result response) = []"
      by (auto simp: keeps_def filter_empty_conv)
    show ?thesis
      using run ne queryDocs_decodable [OF dec, of thr "[]"] none by simp
  qed
  show ?thesis
    using iff dropped by blast
qed

theorem restQuery_empty_response_witness:
  "fst (restQuery cities_store (serving 200 [] None) [] 2 ''cities'' 0 ANil)
     = Inl (Error ErrEmptyResponse)
   \<and> fst (restQuery cities_store (serving 200 [paris, tokyo] None) [] 2 ''cities'' (95 / 100) ANil)
     = Inr []"
  using
    restQuery_empty_response [of "serving 200 [] None" cities_store "[]" 2 "''cities''"
      0 ANil "Body ''{}''" "\<lparr>qr_Time = 0, qr_Status = ''ok'', qr_Result = []\<rparr>"]
    restQuery_empty_response [of "serving 200 [paris, tokyo] None" cities_store "[]" 2 "''cities''"
      "95 / 100" ANil "Body ''{}''" "\<lparr>qr_Time = 0, qr_Status = ''ok'', qr_Result = [paris, tokyo]\<rparr>"]
  by (simp add: serving_def cities_store_def tokyo_def paris_def decodable_def index_map_def)

text \<open>
  Where the check of the content key decides. When the first point of a response that
  does not decode has no string under the content key, the query, the scroll and the loop
  of the earlier generation fail with \<open>ErrMissingTextKey\<close>.
\<close>

lemma restQuery_missing_text_key:
  assumes "http_do w (sent w) (queryRequest s vector n coll thr flt) = Inr (body, 200)"
    and "decode_queries w body = Inr response"
    and "qr_Result response = pre @ p # post"
    and "\<forall>q \<in> set pre. decodable s (sp_Payload q)"
    and "\<not> isStr (index_map (sp_Payload p) (contentKey s))"
  shows "fst (restQuery s w vector n coll thr flt) = Inl (Error ErrMissingTextKey)"
proof -
  have "fst (restQuery s w vector n coll thr flt) = queryDocs s thr (pre @ p # post) []"
    using restQuery_200 [OF assms(1,2)] assms(3) by simp
  then show ?thesis
    using queryDocs_bad_content [OF assms(4,5)] by simp
qed

lemma restScrollPoints_missing_text_key:
  assumes "http_do w (sent w) (scrollRequest s coll req) = Inr (body, 200)"
    and "decode_scroll w body = Inr response"
    and "sr_Result response = Some res"
    and "Points res = pre @ p # post"
    and "\<forall>q \<in> set pre. decodable s (Payload q)"
    and "\<not> isStr (index_map (Payload p) (contentKey s))"
  shows "fst (restScrollPoints s w coll req) = Inl (Error ErrMissingTextKey)"
  using restScrollPoints_200 [OF assms(1,2)] assms(3,4)
    scrollDocs_bad_content [OF assms(5,6), of post "[]"]
  by simp

text \<open>
  When every point of the response decodes, documents are returned, and the content of
  each is the string under the content key of its point.
\<close>

lemma restQuery_contents:
  assumes "http_do w (sent w) (queryRequest s vector n coll thr flt) = Inr (body, 200)"
    and "decode_queries w body = Inr response"
    and "qr_Result response \<noteq> []"
    and "\<forall>p \<in> set (qr_Result response). decodable s (sp_Payload p)"
  shows "\<exists>docs. fst (restQuery s w vector n coll thr flt) = Inr docs
           \<and> map PageContent docs =
               map (\<lambda>q. theStr (index_map (sp_Payload q) (contentKey s)))
                 (filter (keeps thr) (qr_Result response))"
proof -
  have "fst (restQuery s w vector n coll thr flt) =
      Inr (map (\<lambda>p. decoded s (sp_Payload p) (sp_Score p))
             (filter (keeps thr) (qr_Result response)))"
    using restQuery_200 [OF assms(1,2)] assms(3) queryDocs_decodable [OF assms(4), of thr "[]"]
    by simp
  then show ?thesis
    by (simp add: decoded_def comp_def)
qed

lemma restScrollPoints_contents:
  assumes "http_do w (sent w) (scrollRequest s coll req) = Inr (body, 200)"
    and "decode_scroll w body = Inr response"
    and "sr_Result response = Some res"
    and "\<forall>p \<in> set (Points res). decodable s (Payload p)"
  shows "\<exists>docs cursor. fst (restScrollPoints s w coll req) = Inr (docs, cursor)
           \<and> map PageContent docs =
               map (\<lambda>q. theStr (index_map (Payload q) (contentKey s))) (Points res)"
  using restScrollPoints_200 [OF assms(1,2)] assms(3) scrollDocs_decodable [OF assms(4), of "[]"]
  by (simp add: decoded_def comp_def)

text \<open>
  C5. A response in which a point with string content and no metadata mapping comes
  before a point without string content does not fail with \<open>ErrMissingTextKey\<close>: the
  query and the scroll panic at the first point, whose content is a string and becomes the
  content of no document.
\<close>

theorem text_key_check_not_reached:
  "isStr (index_map (sp_Payload no_metadata) (contentKey cities_store))
   \<and> \<not> isStr (index_map (sp_Payload no_text) (contentKey cities_store))
   \<and> fst (restQuery cities_store (serving 200 [no_metadata, no_text] None) [] 2 ''cities'' 0 ANil)
       = Inl (Panic ''interface conversion: interface {} is not map[string]interface {}'')
   \<and> isStr (index_map (Payload no_metadata_point) (contentKey cities_store))
   \<and> \<not> isStr (index_map (Payload no_text_point) (contentKey cities_store))
   \<and> fst (restScrollPoints cities_store
            (serving 200 [] (Some \<lparr>Points = [no_metadata_point, no_text_point],
               NextPageOffset = None\<rparr>)) ''cities'' scroll_cities)
       = Inl (Panic ''interface conversion: interface {} is not map[string]interface {}'')"
  by (simp add: run_simps no_metadata_def no_text_def no_metadata_point_def no_text_point_def
      scroll_cities_def)

section \<open>Scrolling\<close>

lemma restScrollPoints_world:
  "snd (restScrollPoints s w coll req) = w\<lparr>sent := sent w @ [scrollRequest s coll req]\<rparr>"
  by (simp add: restScrollPoints_def doRequest_def scrollRequest_def Let_def
      split: sum.splits option.splits prod.splits)

text \<open>
  C9, as stated, fails: a response whose next-page offset is present and is the empty
  string makes \<open>restScrollPoints\<close> return the empty cursor, although the response
  carries an offset.
\<close>

theorem scroll_empty_cursor_counterexample:
  "fst (restScrollPoints cities_store
          (serving 200 [] (Some \<lparr>Points = [tokyo_point], NextPageOffset = Some []\<rparr>))
          ''cities'' scroll_cities)
     = Inr ([\<lparr>PageContent = ''Tokyo'', Metadata = Some [(''country'', AStr ''Japan'')],
              Score = 0\<rparr>], [])
   \<and> NextPageOffset \<lparr>Points = [tokyo_point], NextPageOffset = Some []\<rparr> \<noteq> None"
  by (simp add: run_simps tokyo_point_def scroll_cities_def)

text \<open>
  C9, amended. When a scroll request is answered with status 200 and a result whose
  points all decode, \<open>restScrollPoints\<close> returns one decoded document per point, in the
  order of the response, and as cursor the next-page offset of the response, or the empty
  string when there is none; so the cursor is empty exactly when the offset is absent or is
  itself empty. When the request that follows is answered in the same way, the documents
  of the two pages, one after the other, are the decoded points of both.
\<close>

theorem restScrollPoints_pages:
  assumes "http_do w (sent w) (scrollRequest s coll req) = Inr (body, 200)"
    and "decode_scroll w body = Inr response"
    and "sr_Result response = Some res"
    and "\<forall>p \<in> set (Points res). decodable s (Payload p)"
  shows "(\<exists>docs cursor.
            fst (restScrollPoints s w coll req) = Inr (docs, cursor)
          \<and> docs = map (\<lambda>p. decoded s (Payload p) 0) (Points res)
          \<and> cursor = (case NextPageOffset res of None \<Rightarrow> [] | Some off \<Rightarrow> off)
          \<and> (cursor = [] \<longleftrightarrow> NextPageOffset res = None \<or> NextPageOffset res = Some [])
          \<and> (\<forall>body2 response2 res2.
                http_do w (sent w @ [scrollRequest s coll req])
                  (scrollRequest s coll (req\<lparr>Offset := cursor\<rparr>)) = Inr (body2, 200)
              \<and> decode_scroll w body2 = Inr response2
              \<and> sr_Result response2 = Some res2
              \<and> (\<forall>p \<in> set (Points res2). decodable s (Payload p))
              \<longrightarrow> (\<exists>docs2 cursor2.
                     fst (restScrollPoints s (snd (restScrollPoints s w coll req)) coll
                            (req\<lparr>Offset := cursor\<rparr>)) = Inr (docs2, cursor2)
                   \<and> docs @ docs2 =
                       map (\<lambda>p. decoded s (Payload p) 0) (Points res @ Points res2))))"
proof -
  have page: "fst (restScrollPoints s w' coll r) =
      Inr (map (\<lambda>p. decoded s (Payload p) 0) (Points rs),
           case NextPageOffset rs of None \<Rightarrow> [] | Some off \<Rightarrow> off)"
    if "http_do w' (sent w') (scrollRequest s coll r) = Inr (b, 200)"
      and "decode_scroll w' b = Inr rsp" and "sr_Result rsp = Some rs"
      and "\<forall>p \<in> set (Points rs). decodable s (Payload p)"
    for w' r b rsp rs
    using restScrollPoints_200 [OF that(1,2)] that(3) scrollDocs_decodable [OF that(4), of "[]"]
    by simp
  let ?docs = "map (\<lambda>p. decoded s (Payload p) 0) (Points res)"
  let ?cursor = "case NextPageOffset res of None \<Rightarrow> [] | Some off \<Rightarrow> off"
  have first: "fst (restScrollPoints s w coll req) = Inr (?docs, ?cursor)"
    using page [OF assms] .
  have empty: "?cursor = [] \<longleftrightarrow> NextPageOffset res = None \<or> NextPageOffset res = Some []"
    by (cases "NextPageOffset res") simp_all
  have second: "\<exists>docs2 cursor2.
        fst (restScrollPoints s (snd (restScrollPoints s w coll req)) coll
               (req\<lparr>Offset := ?cursor\<rparr>)) = Inr (docs2, cursor2)
      \<and> ?docs @ docs2 = map (\<lambda>p. decoded s (Payload p) 0) (Points res @ Points res2)"
    if "http_do w (sent w @ [scrollRequest s coll req])
          (scrollRequest s coll (req\<lparr>Offset := ?cursor\<rparr>)) = Inr (body2, 200)
        \<and> decode_scroll w body2 = Inr response2
        \<and> sr_Result response2 = Some res2
        \<and> (\<forall>p \<in> set (Points res2). decodable s (Payload p))"
    for body2 response2 res2
  proof -
    let ?w1 = "snd (restScrollPoints s w coll req)"
    have w1: "?w1 = w\<lparr>sent := sent w @ [scrollRequest s coll req]\<rparr>"
      by (rule restScrollPoints_world)
    have "fst (restScrollPoints s ?w1 coll (req\<lparr>Offset := ?cursor\<rparr>)) =
        Inr (map (\<lambda>p. decoded s (Payload p) 0) (Points res2),
             case NextPageOffset res2 of None \<Rightarrow> [] | Some off \<Rightarrow> off)"
      using that by (intro page [where b = body2 and rsp = response2]) (simp_all add: w1)
    then show ?thesis by simp
  qed
  show ?thesis
    using first empty second by blast
qed

theorem restScrollPoints_pages_witness:
  "\<exists>docs cursor.
     fst (restScrollPoints cities_store
            (serving 200 [] (Some \<lparr>Points = [tokyo_point, lima_point],
               NextPageOffset = Some ''d''\<rparr>)) ''cities'' scroll_cities) = Inr (docs, cursor)
   \<and> docs = [\<lparr>PageContent = ''Tokyo'', Metadata = Some [(''country'', AStr ''Japan'')],
               Score = 0\<rparr>,
             \<lparr>PageContent = ''Lima'', Metadata = Some [(''country'', AStr ''Peru'')],
               Score = 0\<rparr>]
   \<and> cursor = ''d''
   \<and> fst (restScrollPoints cities_store
            (snd (restScrollPoints cities_store
               (serving 200 [] (Some \<lparr>Points = [tokyo_point, lima_point],
                  NextPageOffset = Some ''d''\<rparr>)) ''cities'' scroll_cities))
            ''cities'' (scroll_cities\<lparr>Offset := cursor\<rparr>)) = Inr (docs, ''d'')"
  using restScrollPoints_pages [of
      "serving 200 [] (Some \<lparr>Points = [tokyo_point, lima_point], NextPageOffset = Some ''d''\<rparr>)"
      cities_store "''cities''" scroll_cities "Body ''{}''"
      "\<lparr>sr_Time = 0, sr_Status = ''ok'',
        sr_Result = Some \<lparr>Points = [tokyo_point, lima_point], NextPageOffset = Some ''d''\<rparr>\<rparr>"
      "\<lparr>Points = [tokyo_point, lima_point], NextPageOffset = Some ''d''\<rparr>"]
  by (simp add: run_simps tokyo_point_def lima_point_def scroll_cities_def)

section \<open>Writing a document and reading it back\<close>

lemmas facade_simps = SimilaritySearch_def AddDocuments_def getOptions_def zero_Options_def
  getEmbedder_def getFilters_def getScoreThreshold_def restUpsert_def upsertPoint_def
  uuid_New_def count_uuid_def map_literal2_def to_any_def scored_def

text \<open>
  What \<open>restUpsert\<close> writes for a document whose metadata is a (non-nil) mapping
  decodes to the content and the metadata of that document, whenever the content key and
  the metadata key of the store differ.
\<close>

lemma upsertPoint_roundtrip:
  assumes "upsertPoint s texts vectors metadatas i uuid = Inr p"
    and "metadatas ! i = Some md"
    and "contentKey s \<noteq> metadataKey s"
  shows "decodable s (Payload p)
       \<and> decoded s (Payload p) sc = \<lparr>PageContent = texts ! i, Metadata = Some md, Score = sc\<rparr>"
proof -
  from assms(1) have "Payload p = map_literal2 (contentKey s) (AStr (texts ! i))
      (metadataKey s) (to_any (metadatas ! i))"
    by (auto simp: upsertPoint_def split: if_splits sum.splits)
  then have "Payload p = [(contentKey s, AStr (texts ! i)), (metadataKey s, AMap md)]"
    using assms(2,3) by (simp add: map_literal2_def to_any_def)
  then show ?thesis
    using assms(3) by (auto simp: decodable_def decoded_def index_map_def)
qed

lemma written_decodes:
  assumes "contentKey s \<noteq> metadataKey s" and "metadatas ! i = Some md"
  shows "decodable s (Payload (written s texts vectors metadatas i uuid))"
    and "decoded s (Payload (written s texts vectors metadatas i uuid)) sc =
           \<lparr>PageContent = texts ! i, Metadata = Some md, Score = sc\<rparr>"
  using assms
  by (simp_all add: written_def map_literal2_def to_any_def decodable_def decoded_def
      index_map_def)

text \<open>
  The points \<open>restUpsert\<close> writes for documents that all have a (non-nil) metadata
  map, returned by a query without threshold, decode to these documents, in order.
\<close>

lemma written_points_read_back:
  assumes "contentKey s \<noteq> metadataKey s" and "\<forall>d \<in> set docs. Metadata d \<noteq> None"
  shows "queryDocs s 0
           (map (\<lambda>i. scored sc (written s (map PageContent docs) vectors (map Metadata docs) i (u i)))
              [0..<length docs]) [] =
         Inr (map (\<lambda>d. \<lparr>PageContent = PageContent d, Metadata = Metadata d, Score = sc\<rparr>) docs)"
proof -
  let ?w = "\<lambda>i. written s (map PageContent docs) vectors (map Metadata docs) i (u i)"
  let ?pts = "map (\<lambda>i. scored sc (?w i)) [0..<length docs]"
  have md: "\<exists>md. map Metadata docs ! i = Some md \<and> Metadata (docs ! i) = Some md"
    if "i < length docs" for i
  proof -
    from that have "docs ! i \<in> set docs" by simp
    with assms(2) have "Metadata (docs ! i) \<noteq> None" by blast
    then show ?thesis using that by auto
  qed
  have dec: "\<forall>p \<in> set ?pts. decodable s (sp_Payload p)"
  proof
    fix p assume "p \<in> set ?pts"
    then obtain i where i: "i < length docs" and p: "p = scored sc (?w i)"
      by auto
    from md [OF i] obtain m where "map Metadata docs ! i = Some m"
      by blast
    then show "decodable s (sp_Payload p)"
      using written_decodes(1) [OF assms(1)] by (simp add: p scored_def)
  qed
  have all: "filter (keeps 0) ?pts = ?pts"
    by (simp add: keeps_def)
  have "map (\<lambda>p. decoded s (sp_Payload p) (sp_Score p)) ?pts =
      map (\<lambda>d. \<lparr>PageContent = PageContent d, Metadata = Metadata d, Score = sc\<rparr>) docs"
  proof (rule nth_equalityI)
    show "length (map (\<lambda>p. decoded s (sp_Payload p) (sp_Score p)) ?pts) =
        length (map (\<lambda>d. \<lparr>PageContent = PageContent d, Metadata = Metadata d, Score = sc\<rparr>) docs)"
      by simp
  next
    fix i assume "i < length (map (\<lambda>p. decoded s (sp_Payload p) (sp_Score p)) ?pts)"
    then have i: "i < length docs" by simp
    from md [OF i] obtain m where m: "map Metadata docs ! i = Some m"
      and m': "Metadata (docs ! i) = Some m"
      by blast
    show "map (\<lambda>p. decoded s (sp_Payload p) (sp_Score p)) ?pts ! i =
        map (\<lambda>d. \<lparr>PageContent = PageContent d, Metadata = Metadata d, Score = sc\<rparr>) docs ! i"
      using i m' written_decodes(2) [OF assms(1) m]
      by (simp add: scored_def)
  qed
  then show ?thesis
    using queryDocs_decodable [OF dec, of 0 "[]"] all by simp
qed

text \<open>
  C1. A document without metadata (the nil map) is written with \<open>null\<close> under the
  metadata key, and a query that returns this very point panics instead of returning the
  document.
\<close>

theorem nil_metadata_not_read_back:
  "fst (AddDocuments cities_store (serving 200 [] None) [tokyo_doc] []) = None
   \<and> map req_payload (sent (snd (AddDocuments cities_store (serving 200 [] None) [tokyo_doc] [])))
       = [UpsertPayload [tokyo_written]]
   \<and> fst (SimilaritySearch cities_store (serving 200 [scored 1 tokyo_written] None)
            ''Tokyo'' 1 [])
       = Inl (Panic ''interface conversion: interface {} is not map[string]interface {}'')"
  by (simp add: run_simps facade_simps tokyo_doc_def tokyo_written_def)

text \<open>
  C10. A returned point with a string under the content key and nothing under the
  metadata key makes \<open>SimilaritySearch\<close> panic, and \<open>restScrollPoints\<close> as well.
\<close>

theorem metadata_assertion_panics:
  "fst (SimilaritySearch cities_store (serving 200 [no_metadata] None) ''Tokyo'' 1 [])
     = Inl (Panic ''interface conversion: interface {} is not map[string]interface {}'')
   \<and> fst (restScrollPoints cities_store
            (serving 200 [] (Some \<lparr>Points = [no_metadata_point], NextPageOffset = None\<rparr>))
            ''cities'' scroll_cities)
     = Inl (Panic ''interface conversion: interface {} is not map[string]interface {}'')"
  by (simp add: run_simps facade_simps no_metadata_def no_metadata_point_def scroll_cities_def)

section \<open>Construction\<close>

lemma restNewCollection_world:
  "snd (restNewCollection s w (collectionName s)) = w\<lparr>sent := sent w @ [collectionRequest s]\<rparr>"
  by (simp add: restNewCollection_def doRequest_def collectionRequest_def Let_def
      split: sum.splits prod.splits)

lemma restIndexMetadataKey_world:
  "snd (restIndexMetadataKey s w (collectionName s) key) =
     w\<lparr>sent := sent w @ [indexRequest s key]\<rparr>"
  by (simp add: restIndexMetadataKey_def doRequest_def indexRequest_def Let_def
      split: sum.splits prod.splits)

lemma index_keys_world:
  "fold (\<lambda>indexKey w'. snd (restIndexMetadataKey s w' (collectionName s) indexKey)) keys w =
     w\<lparr>sent := sent w @ map (indexRequest s) keys\<rparr>"
  by (induction keys arbitrary: w) (simp_all add: restIndexMetadataKey_world)

text \<open>
  C6. Without an embedder, \<open>New\<close> returns the zero store and \<open>ErrInvalidOptions\<close>;
  so it does without a base URL when \<open>QDRANT_BASE_URL\<close> is not set either. In both cases
  the world is the one before the call: no request was sent.
\<close>

theorem New_invalid_options:
  "(embedder (configured opts) = None \<longrightarrow>
      New w opts = ((zero_Store, Some (ErrInvalidOptions ''missing embedder'')), w))
   \<and> (baseURL (configured opts) = [] \<and> getenv w ''QDRANT_BASE_URL'' = [] \<longrightarrow>
      fst (fst (New w opts)) = zero_Store
      \<and> isInvalidOptions (snd (fst (New w opts)))
      \<and> snd (New w opts) = w)"
proof -
  have no_embedder: "New w opts = ((zero_Store, Some (ErrInvalidOptions ''missing embedder'')), w)"
    if "embedder (configured opts) = None"
  proof -
    from that have "applyClientOptions w opts =
        (zero_Store, Some (ErrInvalidOptions ''missing embedder''))"
      by (simp add: applyClientOptions_def configured_def Let_def)
    then show ?thesis
      by (simp add: New_def)
  qed
  have no_url: "fst (fst (New w opts)) = zero_Store
      \<and> isInvalidOptions (snd (fst (New w opts))) \<and> snd (New w opts) = w"
    if "baseURL (configured opts) = [] \<and> getenv w ''QDRANT_BASE_URL'' = []"
  proof -
    from that have "\<exists>msg. applyClientOptions w opts = (zero_Store, Some (ErrInvalidOptions msg))"
      by (auto simp: applyClientOptions_def configured_def Let_def)
    then obtain msg where "New w opts = ((zero_Store, Some (ErrInvalidOptions msg)), w)"
      by (auto simp: New_def)
    then show ?thesis
      by simp
  qed
  show ?thesis
    using no_embedder no_url by blast
qed

lemmas option_simps = configured_def WithEmbedder_def WithCollectionConfig_def
  WithContentKey_def WithMetadataKey_def WithIndexKeys_def WithAPIKey_def WithBaseURL_def
  WithUseCloud_def WithCollectionName_def zero_Store_def

theorem New_invalid_options_witness:
  "New (serving 200 [] None) [WithBaseURL ''http://localhost:6333'', WithCollectionName ''cities'']
     = ((zero_Store, Some (ErrInvalidOptions ''missing embedder'')), serving 200 [] None)
   \<and> fst (New (serving 200 [] None) [WithEmbedder (Some NilEmbedder), WithCollectionName ''cities''])
     = (zero_Store, Some (ErrInvalidOptions ''missing api url''))
   \<and> sent (snd (New (serving 200 [] None)
        [WithEmbedder (Some NilEmbedder), WithCollectionName ''cities''])) = []"
  using
    New_invalid_options [of "[WithBaseURL ''http://localhost:6333'', WithCollectionName ''cities'']"
      "serving 200 [] None"]
    New_invalid_options [of "[WithEmbedder (Some NilEmbedder), WithCollectionName ''cities'']"
      "serving 200 [] None"]
  by (simp add: option_simps serving_def New_def applyClientOptions_def Let_def)

text \<open>
  C8. When the options pass the checks, \<open>New\<close> returns the configured store and no
  error, whatever the collection request and the index requests returned; these requests
  were sent, in this order.
\<close>

theorem New_discards_provisioning_errors:
  assumes "applyClientOptions w opts = (s, None)"
  shows "fst (New w opts) = (s, None)
       \<and> sent (snd (New w opts)) =
           sent w @ collectionRequest s # map (indexRequest s) (indexKeys s)"
  using assms
  by (simp add: New_def Let_def restNewCollection_world index_keys_world)

theorem New_discards_provisioning_errors_witness:
  "fst (New (serving 500 [] None)
          [WithEmbedder (Some NilEmbedder), WithBaseURL ''http://localhost:6333'',
           WithCollectionName ''cities'', WithIndexKeys [''metadata.country'']])
     = (cities_store\<lparr>indexKeys := [''metadata.country'']\<rparr>, None)
   \<and> fst (restNewCollection (cities_store\<lparr>indexKeys := [''metadata.country'']\<rparr>)
            (serving 500 [] None) ''cities'')
     = Some (APIError ''creating collection'' ''{}'')
   \<and> length (sent (snd (New (serving 500 [] None)
          [WithEmbedder (Some NilEmbedder), WithBaseURL ''http://localhost:6333'',
           WithCollectionName ''cities'', WithIndexKeys [''metadata.country'']]))) = 2"
  using New_discards_provisioning_errors [of "serving 500 [] None"
      "[WithEmbedder (Some NilEmbedder), WithBaseURL ''http://localhost:6333'',
        WithCollectionName ''cities'', WithIndexKeys [''metadata.country'']]"
      "cities_store\<lparr>indexKeys := [''metadata.country'']\<rparr>"]
  by (simp add: option_simps serving_def applyClientOptions_def Let_def cities_store_def
      restNewCollection_def doRequest_def)

section \<open>Adding documents\<close>

text \<open>
  C4, as stated, fails: on a store whose own embedder is \<open>NilEmbedder\<close>, a per-call
  embedder that returns no vector for one document is not reported; the upsert request is
  sent, with no point, and \<open>AddDocuments\<close> returns no error.
\<close>

theorem AddDocuments_count_counterexample:
  "EmbedDocuments silent_embedder [''Tokyo''] = Inr []
   \<and> fst (AddDocuments cities_store (serving 200 [] None) [tokyo_doc]
            [vs_WithEmbedder silent_embedder]) = None
   \<and> map req_payload (sent (snd (AddDocuments cities_store (serving 200 [] None) [tokyo_doc]
            [vs_WithEmbedder silent_embedder]))) = [UpsertPayload []]"
  by (simp add: run_simps facade_simps tokyo_doc_def vs_WithEmbedder_def silent_embedder_def)

text \<open>
  C4, amended. When the store's own embedder is not \<open>NilEmbedder\<close>, and the embedder of
  the call returns a number of vectors other than the number of documents,
  \<open>AddDocuments\<close> fails with \<open>ErrEmbedderWrongNumberVectors\<close> and the world is the one
  before the call: no upsert request was sent.
\<close>

theorem AddDocuments_wrong_number_of_vectors:
  assumes "getEmbedder s (getOptions options) = Some e"
    and "EmbedDocuments e (map PageContent docs) = Inr vectors"
    and "\<not> isNilEmbedder (embedder s)"
    and "length vectors \<noteq> length docs"
  shows "AddDocuments s w docs options = (Some (Error ErrEmbedderWrongNumberVectors), w)"
  using assms
  by (simp add: AddDocuments_def Let_def)

theorem AddDocuments_wrong_number_of_vectors_witness:
  "AddDocuments (cities_store\<lparr>embedder := Some silent_embedder\<rparr>) (serving 200 [] None)
     [tokyo_doc] []
     = (Some (Error ErrEmbedderWrongNumberVectors), serving 200 [] None)"
  using AddDocuments_wrong_number_of_vectors [of "cities_store\<lparr>embedder := Some silent_embedder\<rparr>"
      "[]" silent_embedder "[tokyo_doc]" "[]" "serving 200 [] None"]
  by (simp add: getEmbedder_def getOptions_def zero_Options_def cities_store_def
      silent_embedder_def tokyo_doc_def)

section \<open>Point IDs\<close>

lemma upsertPoint_accepted:
  assumes "i < length metadatas" and "i < length texts" and "id_accepted (metadatas ! i)"
  shows "upsertPoint s texts vectors metadatas i uuid =
           Inr (written s texts vectors metadatas i uuid)"
  using assms
  by (auto simp: upsertPoint_def written_def id_accepted_def supplied_id_def
      split: option.splits any.splits)

lemma upsertPoints_accepted:
  assumes "\<forall>i \<in> set idxs. i < length metadatas \<and> i < length texts \<and> id_accepted (metadatas ! i)"
  shows "upsertPoints s texts vectors metadatas idxs v w =
           (Inr (v @ map (\<lambda>(i, k). written s texts vectors metadatas i (uuid_gen w k))
                      (zip idxs [uuid_count w..<uuid_count w + length idxs])),
            w\<lparr>uuid_count := uuid_count w + length idxs\<rparr>)"
  using assms
proof (induction idxs arbitrary: v w)
  case Nil
  then show ?case by simp
next
  case (Cons i idxs)
  let ?w1 = "w\<lparr>uuid_count := Suc (uuid_count w)\<rparr>"
  have p: "upsertPoint s texts vectors metadatas i (uuid_gen w (uuid_count w)) =
      Inr (written s texts vectors metadatas i (uuid_gen w (uuid_count w)))"
    using Cons.prems by (simp add: upsertPoint_accepted)
  have rest: "\<forall>j \<in> set idxs. j < length metadatas \<and> j < length texts \<and> id_accepted (metadatas ! j)"
    using Cons.prems by simp
  have upt: "[uuid_count w..<uuid_count w + length (i # idxs)] =
      uuid_count w # [Suc (uuid_count w)..<Suc (uuid_count w) + length idxs]"
  proof -
    have "[uuid_count w..<uuid_count w + Suc (length idxs)] =
        uuid_count w # [Suc (uuid_count w)..<uuid_count w + Suc (length idxs)]"
      by (rule upt_conv_Cons) simp
    then show ?thesis by simp
  qed
  show ?case
    unfolding upt
    by (simp add: uuid_New_def p Cons.IH [OF rest])
qed


lemma restUpsert_accepted:
  assumes "length vectors \<le> length metadatas" and "length vectors \<le> length texts"
    and "\<forall>i < length vectors. id_accepted (metadatas ! i)"
  shows "sent (snd (restUpsert s w texts vectors metadatas coll)) =
      sent w @ [upsertRequest s coll
        (map (\<lambda>i. written s texts vectors metadatas i (uuid_gen w (uuid_count w + i)))
           [0..<length vectors])]"
proof -
  let ?n = "length vectors"
  have ok: "\<forall>i \<in> set [0..<?n]. i < length metadatas \<and> i < length texts
      \<and> id_accepted (metadatas ! i)"
    using assms by auto
  have z: "map (\<lambda>(i, k). written s texts vectors metadatas i (uuid_gen w k))
             (zip [0..<?n] [uuid_count w..<uuid_count w + length [0..<?n]]) =
           map (\<lambda>i. written s texts vectors metadatas i (uuid_gen w (uuid_count w + i))) [0..<?n]"
    by (rule nth_equalityI) (simp_all add: add.commute)
  show ?thesis
    unfolding restUpsert_def upsertPoints_accepted [OF ok] z
    by (simp add: doRequest_def upsertRequest_def Let_def split: sum.splits prod.splits)
qed

lemma inj_count_uuid: "inj count_uuid"
proof (rule injI)
  fix m n
  assume "count_uuid m = count_uuid n"
  then have "length (count_uuid m) = length (count_uuid n)"
    by simp
  then show "m = n"
    by (simp add: count_uuid_def)
qed

text \<open>
  C7, as stated, fails: a non-nil value under \<open>__point_id\<close> that is not a string (here
  the number 42) is not assigned as the point ID; \<open>restUpsert\<close> panics on it and sends
  nothing.
\<close>

theorem point_id_counterexample:
  "index_map [(''__point_id'', ANum 42)] ''__point_id'' \<noteq> ANil
   \<and> restUpsert cities_store (serving 200 [] None) [''Tokyo''] [ [] ]
        [Some [(''__point_id'', ANum 42)]] ''cities''
     = (Some (Panic ''interface conversion: interface {} is not string''),
        (serving 200 [] None)\<lparr>uuid_count := 1\<rparr>)"
  by (simp add: run_simps facade_simps)

text \<open>
  C7, amended. For a batch in which every value under \<open>__point_id\<close> is nil or a string,
  \<open>restUpsert\<close> sends one point per vector; a point whose metadata has a string under
  \<open>__point_id\<close> gets that string as its ID, every other point gets the UUID drawn in its
  iteration; these UUIDs differ from one another when the generator never repeats itself.
\<close>

theorem restUpsert_point_ids:
  assumes "length vectors \<le> length metadatas" and "length vectors \<le> length texts"
    and "\<forall>i < length vectors. id_accepted (metadatas ! i)"
  shows "\<exists>v. sent (snd (restUpsert s w texts vectors metadatas coll)) =
               sent w @ [upsertRequest s coll v]
           \<and> length v = length vectors
           \<and> (\<forall>i < length vectors.
                 ID (v ! i) = (case supplied_id (metadatas ! i) of
                                 Some pid \<Rightarrow> pid
                               | None \<Rightarrow> uuid_gen w (uuid_count w + i)))
           \<and> (inj (uuid_gen w) \<longrightarrow>
                (\<forall>i < length vectors. \<forall>j < length vectors.
                   i \<noteq> j \<and> supplied_id (metadatas ! i) = None
                     \<and> supplied_id (metadatas ! j) = None
                   \<longrightarrow> ID (v ! i) \<noteq> ID (v ! j)))"
proof -
  let ?v = "map (\<lambda>i. written s texts vectors metadatas i (uuid_gen w (uuid_count w + i)))
              [0..<length vectors]"
  have sent: "sent (snd (restUpsert s w texts vectors metadatas coll)) =
      sent w @ [upsertRequest s coll ?v]"
    using restUpsert_accepted [OF assms] .
  have len: "length ?v = length vectors"
    by simp
  have ids: "\<forall>i < length vectors.
      ID (?v ! i) = (case supplied_id (metadatas ! i) of
                       Some pid \<Rightarrow> pid
                     | None \<Rightarrow> uuid_gen w (uuid_count w + i))"
    by (auto simp: written_def split: option.splits)
  have fresh: "\<forall>i < length vectors. \<forall>j < length vectors.
      i \<noteq> j \<and> supplied_id (metadatas ! i) = None \<and> supplied_id (metadatas ! j) = None
      \<longrightarrow> ID (?v ! i) \<noteq> ID (?v ! j)" if "inj (uuid_gen w)"
    using that by (auto simp: written_def dest: injD)
  show ?thesis
    using sent len ids fresh by blast
qed

theorem restUpsert_point_ids_witness:
  "\<exists>v. map req_payload (sent (snd (restUpsert cities_store (serving 200 [] None)
           [''Tokyo'', ''Paris'', ''Lima''] [ [1], [2], [3] ]
           [Some [(''__point_id'', AStr ''tokyo-1'')], None, Some [(''country'', AStr ''Peru'')]]
           ''cities''))) = [UpsertPayload v]
     \<and> map ID v = [''tokyo-1'', ''uuid-i'', ''uuid-ii'']
     \<and> ID (v ! 1) \<noteq> ID (v ! 2)"
proof -
  let ?mds = "[Some [(''__point_id'', AStr ''tokyo-1'')], None, Some [(''country'', AStr ''Peru'')]]"
  have acc: "\<forall>i < length [ [1], [2], [3::rat] ]. id_accepted (?mds ! i)"
    by (simp add: id_accepted_def index_map_def nth_Cons less_Suc_eq split: nat.splits)
  have inj: "inj (uuid_gen (serving 200 [] None))"
    by (simp add: serving_def inj_count_uuid)
  from restUpsert_point_ids [of "[ [1], [2], [3] ]" ?mds "[''Tokyo'', ''Paris'', ''Lima'']",
        OF _ _ acc, of cities_store "serving 200 [] None" "''cities''"] inj
  obtain v where v: "sent (snd (restUpsert cities_store (serving 200 [] None)
           [''Tokyo'', ''Paris'', ''Lima''] [ [1], [2], [3] ] ?mds ''cities'')) =
        sent (serving 200 [] None) @ [upsertRequest cities_store ''cities'' v]"
    and len: "length v = 3"
    and ids: "\<forall>i < 3. ID (v ! i) = (case supplied_id (?mds ! i) of
                 Some pid \<Rightarrow> pid
               | None \<Rightarrow> uuid_gen (serving 200 [] None) (uuid_count (serving 200 [] None) + i))"
    and fresh: "\<forall>i < 3. \<forall>j < 3.
                   i \<noteq> j \<and> supplied_id (?mds ! i) = None \<and> supplied_id (?mds ! j) = None
                   \<longrightarrow> ID (v ! i) \<noteq> ID (v ! j)"
    by auto
  have s1: "supplied_id (?mds ! 1) = None" and s2: "supplied_id (?mds ! 2) = None"
    and s0: "supplied_id (?mds ! 0) = Some ''tokyo-1''"
    by (simp_all add: supplied_id_def index_map_def)
  have "ID (v ! 0) = ''tokyo-1''" and "ID (v ! 1) = ''uuid-i''" and "ID (v ! 2) = ''uuid-ii''"
    using ids s0 s1 s2 by (simp_all add: serving_def count_uuid_def numeral_2_eq_2)
  then have m: "map ID v = [''tokyo-1'', ''uuid-i'', ''uuid-ii'']"
    using len by (intro nth_equalityI) (auto simp: less_Suc_eq numeral_3_eq_3 numeral_2_eq_2)
  have d: "ID (v ! 1) \<noteq> ID (v ! 2)"
    using fresh s1 s2 by simp
  show ?thesis
    using v m d by (auto simp: serving_def upsertRequest_def)
qed

end
